theory Spec2Isabelle
  imports Complex_Main "HOL-Library.AList"
begin

section \<open>Python values as the dashboard receives them\<close>

text \<open>
  The aggregators of \<^verbatim>\<open>dashboard_metrics.py\<close>, \<^verbatim>\<open>kmc_dashboard.py\<close> and
  \<^verbatim>\<open>utils/dashboard_utils.py\<close> work on Firestore documents that the loader has
  passed through \<^verbatim>\<open>_ensure_serializable\<close>: every value is \<^verbatim>\<open>None\<close>, a bool, an
  int, a float, a str, a list or a dict with string keys. A document is an association
  list; \<^verbatim>\<open>d.get(k)\<close> reads the first binding of \<open>k\<close>.

  Strings are byte strings (UTF-8). A float carries its exact value, or is one of the
  three special values.
\<close>

datatype pyfloat = Fin rat | PosInf | NegInf | NaN

datatype pyval =
    PNone
  | PBool bool
  | PInt int
  | PFloat pyfloat
  | PStr string
  | PList "pyval list"
  | PDict "(string \<times> pyval) list"

type_synonym pydict = "(string \<times> pyval) list"

datatype exn = AttributeError | TypeError | ValueError | OverflowError

text \<open>Truth value testing (\<^verbatim>\<open>if x:\<close>, \<^verbatim>\<open>not x\<close>, \<^verbatim>\<open>x or y\<close>).\<close>

fun truthy :: "pyval \<Rightarrow> bool" where
  "truthy PNone = False"
| "truthy (PBool b) = b"
| "truthy (PInt n) = (n \<noteq> 0)"
| "truthy (PFloat f) = (f \<noteq> Fin 0)"
| "truthy (PStr s) = (s \<noteq> [])"
| "truthy (PList xs) = (xs \<noteq> [])"
| "truthy (PDict kv) = (kv \<noteq> [])"

text \<open>\<^verbatim>\<open>d.get(k)\<close> (absent keys give \<^verbatim>\<open>None\<close>) and \<^verbatim>\<open>d.get(k, default)\<close>.\<close>

definition get :: "pydict \<Rightarrow> string \<Rightarrow> pyval" where
  "get d k = (case map_of d k of None \<Rightarrow> PNone | Some v \<Rightarrow> v)"

definition get_or :: "pydict \<Rightarrow> string \<Rightarrow> pyval \<Rightarrow> pyval" where
  "get_or d k dflt = (case map_of d k of None \<Rightarrow> dflt | Some v \<Rightarrow> v)"

text \<open>\<^verbatim>\<open>x or y\<close> returns \<open>x\<close> when it is truthy and \<open>y\<close> otherwise.\<close>

definition py_or :: "pyval \<Rightarrow> pyval \<Rightarrow> pyval" where
  "py_or x y = (if truthy x then x else y)"

text \<open>A statement that raises ends the function: the rest is skipped.\<close>

definition exn_bind :: "exn + 'a \<Rightarrow> ('a \<Rightarrow> exn + 'b) \<Rightarrow> exn + 'b" where
  "exn_bind m f = (case m of Inl e \<Rightarrow> Inl e | Inr x \<Rightarrow> f x)"

text \<open>
  \<^verbatim>\<open>s.lower()\<close> on the bytes of \<open>s\<close>: the ASCII capitals are mapped, every other byte
  is kept. The results are only compared with, or searched for, ASCII literals. Two
  non-ASCII code points lower-case to an ASCII letter (the Kelvin sign to k, the dotted
  capital I to i followed by a combining dot); no literal used below contains a k or
  ends in an i, so the comparisons come out as in Python.
\<close>

definition lower_char :: "char \<Rightarrow> char" where
  "lower_char c =
     (case map_of (zip ''ABCDEFGHIJKLMNOPQRSTUVWXYZ'' ''abcdefghijklmnopqrstuvwxyz'') c of
        None \<Rightarrow> c
      | Some l \<Rightarrow> l)"

definition lower :: "string \<Rightarrow> string" where
  "lower s = map lower_char s"

text \<open>\<^verbatim>\<open>v.lower()\<close> on a value: only a str has the method.\<close>

definition str_lower :: "pyval \<Rightarrow> exn + string" where
  "str_lower v = (case v of PStr s \<Rightarrow> Inr (lower s) | _ \<Rightarrow> Inl AttributeError)"


section \<open>Discharge classification (\<^verbatim>\<open>categorize_discharge\<close>)\<close>

text \<open>The chain of comparisons that all three source families share.\<close>

definition discharge_bucket :: "string \<Rightarrow> string \<Rightarrow> string" where
  "discharge_bucket status type =
     (if status = ''critical'' \<and> type = ''home'' then ''critical_home''
      else if status = ''stable'' \<and> type = ''home'' then ''stable_home''
      else if status = ''critical'' \<and> type = ''referred'' then ''critical_referred''
      else if type = ''died'' then ''died''
      else ''other'')"

definition categorize_discharge :: "pydict \<Rightarrow> string \<Rightarrow> exn + string" where
  "categorize_discharge record source =
     (if source = ''discharges'' then
        exn_bind (str_lower (get_or record ''dischargeStatus'' (PStr ''''))) (\<lambda>discharge_status.
        exn_bind (str_lower (get_or record ''dischargeType'' (PStr ''''))) (\<lambda>discharge_type.
          Inr (discharge_bucket discharge_status discharge_type)))
      else if source = ''baby'' then
        exn_bind (str_lower (get_or record ''lastDischargeStatus'' (PStr '''')))
          (\<lambda>last_discharge_status.
        exn_bind (str_lower (get_or record ''lastDischargeType'' (PStr '''')))
          (\<lambda>last_discharge_type.
          Inr (discharge_bucket last_discharge_status last_discharge_type)))
      else if source = ''babyBackUp'' then
        exn_bind (str_lower (get_or record ''lastDischargeStatus'' (PStr '''')))
          (\<lambda>last_discharge_status.
        exn_bind (str_lower (get_or record ''lastDischargeType'' (PStr '''')))
          (\<lambda>last_discharge_type.
          Inr (discharge_bucket last_discharge_status last_discharge_type)))
      else Inr ''other'')"

definition discharge_keys :: "string set" where
  "discharge_keys = {''critical_home'', ''stable_home'', ''critical_referred'', ''died'', ''other''}"


section \<open>Hierarchical field resolution (\<^verbatim>\<open>get_prioritized_*\<close>)\<close>

text \<open>
  \<open>matching_discharge\<close> is \<^verbatim>\<open>None\<close> or a discharge document;
  \<^verbatim>\<open>if matching_discharge:\<close> also skips an empty document.
\<close>

definition doc_truthy :: "pydict option \<Rightarrow> bool" where
  "doc_truthy md = (case md of None \<Rightarrow> False | Some d \<Rightarrow> d \<noteq> [])"

definition NA :: pyval where
  "NA = PStr ''N/A''"

text \<open>
  The priority order in the specification's words: the discharge record's field if it is
  present and not the sentinel, else the patient record's field, else the sentinel.
  \<open>dv\<close> and \<open>bv\<close> are the two fields, \<open>None\<close> when absent.
\<close>

definition resolve_by_priority :: "pyval option \<Rightarrow> pyval option \<Rightarrow> pyval" where
  "resolve_by_priority dv bv =
     (case dv of
        Some v \<Rightarrow> if v \<noteq> NA then v else (case bv of Some w \<Rightarrow> w | None \<Rightarrow> NA)
      | None \<Rightarrow> (case bv of Some w \<Rightarrow> w | None \<Rightarrow> NA))"

definition discharge_field :: "pydict option \<Rightarrow> string \<Rightarrow> pyval option" where
  "discharge_field md k = (case md of None \<Rightarrow> None | Some d \<Rightarrow> map_of d k)"

definition get_prioritized_discharge_weight :: "pydict \<Rightarrow> pydict option \<Rightarrow> pyval" where
  "get_prioritized_discharge_weight baby matching_discharge =
     (let discharge_weight = NA;
          discharge_weight =
            (if doc_truthy matching_discharge
             then get_or (the matching_discharge) ''dischargeWeight'' NA
             else discharge_weight);
          discharge_weight =
            (if discharge_weight = NA then get_or baby ''dischargeWeight'' NA
             else discharge_weight)
      in discharge_weight)"

definition get_prioritized_discharge_temperature :: "pydict \<Rightarrow> pydict option \<Rightarrow> pyval" where
  "get_prioritized_discharge_temperature baby matching_discharge =
     (let discharge_temp = NA;
          discharge_temp =
            (if doc_truthy matching_discharge
             then get_or (the matching_discharge) ''dischargeTemperature'' NA
             else discharge_temp);
          discharge_temp =
            (if discharge_temp = NA then get_or baby ''babyTemperatureDischarge2'' NA
             else discharge_temp)
      in discharge_temp)"

definition get_prioritized_discharge_rr :: "pydict \<Rightarrow> pydict option \<Rightarrow> pyval" where
  "get_prioritized_discharge_rr baby matching_discharge =
     (let discharge_rr = NA;
          discharge_rr =
            (if doc_truthy matching_discharge
             then get_or (the matching_discharge) ''dischargeRR'' NA
             else discharge_rr);
          discharge_rr =
            (if discharge_rr = NA then get_or baby ''babyRRdischarge'' NA
             else discharge_rr)
      in discharge_rr)"

definition get_prioritized_feed_mode :: "pydict \<Rightarrow> pydict option \<Rightarrow> pyval" where
  "get_prioritized_feed_mode baby matching_discharge =
     (let feed_mode = NA;
          feed_mode =
            (if doc_truthy matching_discharge
             then get_or (the matching_discharge) ''feedMode'' NA
             else feed_mode);
          feed_mode =
            (if feed_mode = NA then get_or baby ''whatFeedMode'' NA else feed_mode)
      in feed_mode)"

definition get_prioritized_baby_health :: "pydict \<Rightarrow> pydict option \<Rightarrow> pyval" where
  "get_prioritized_baby_health baby matching_discharge =
     (let baby_health = NA;
          baby_health =
            (if doc_truthy matching_discharge
             then get_or (the matching_discharge) ''dischargeDangerSigns'' NA
             else baby_health);
          baby_health =
            (if baby_health = NA then get_or baby ''howsBabyHealth'' NA else baby_health)
      in baby_health)"

definition get_prioritized_critical_reasons :: "pydict \<Rightarrow> pydict option \<Rightarrow> pyval" where
  "get_prioritized_critical_reasons baby matching_discharge =
     (let critical_reasons = NA;
          critical_reasons =
            (if doc_truthy matching_discharge
             then get_or (the matching_discharge) ''criticalReasons'' NA
             else critical_reasons);
          critical_reasons =
            (if critical_reasons = NA then get_or baby ''criticalReasons'' NA
             else critical_reasons)
      in critical_reasons)"

definition get_prioritized_discharge_reason :: "pydict \<Rightarrow> pydict option \<Rightarrow> pyval" where
  "get_prioritized_discharge_reason baby matching_discharge =
     (let discharge_reason = NA;
          discharge_reason =
            (if doc_truthy matching_discharge
             then get_or (the matching_discharge) ''dischargeReason'' NA
             else discharge_reason);
          discharge_reason =
            (if discharge_reason = NA then get_or baby ''dischargeReason'' NA
             else discharge_reason)
      in discharge_reason)"


section \<open>Loops and string methods\<close>

text \<open>\<^verbatim>\<open>for x in xs: body\<close>, the body updating the state \<open>s\<close> or raising.\<close>

fun for_each :: "('a \<Rightarrow> 's \<Rightarrow> exn + 's) \<Rightarrow> 'a list \<Rightarrow> 's \<Rightarrow> exn + 's" where
  "for_each body [] s = Inr s"
| "for_each body (x # xs) s = exn_bind (body x s) (for_each body xs)"

text \<open>
  The elements that \<^verbatim>\<open>for x in v\<close> visits. A str yields its characters and a dict its
  keys; the loops below call \<^verbatim>\<open>x.get\<close> on each element at once, so only their number
  matters. Anything else is not iterable.
\<close>

definition py_iter :: "pyval \<Rightarrow> exn + pyval list" where
  "py_iter v =
     (case v of
        PList xs \<Rightarrow> Inr xs
      | PStr s \<Rightarrow> Inr (map (\<lambda>c. PStr [c]) s)
      | PDict kv \<Rightarrow> Inr (map (\<lambda>kv. PStr (fst kv)) kv)
      | _ \<Rightarrow> Inl TypeError)"

text \<open>\<^verbatim>\<open>x.get(...)\<close>: only a dict has the method.\<close>

definition as_doc :: "pyval \<Rightarrow> exn + pydict" where
  "as_doc v = (case v of PDict d \<Rightarrow> Inr d | _ \<Rightarrow> Inl AttributeError)"

text \<open>
  \<^verbatim>\<open>s.strip()\<close> removes the white-space code points at both ends. On UTF-8 bytes
  these are the ten ASCII ones and the encodings of U+0085, U+00A0, U+1680,
  U+2000 to U+200A, U+2028, U+2029, U+202F, U+205F and U+3000.
\<close>

definition whitespace :: "string list" where
  "whitespace =
     map (\<lambda>c. [c]) [CHR 0x09, CHR 0x0A, CHR 0x0B, CHR 0x0C, CHR 0x0D,
                   CHR 0x1C, CHR 0x1D, CHR 0x1E, CHR 0x1F, CHR 0x20]
     @ [[CHR 0xC2, CHR 0x85], [CHR 0xC2, CHR 0xA0], [CHR 0xE1, CHR 0x9A, CHR 0x80]]
     @ map (\<lambda>c. [CHR 0xE2, CHR 0x80, c])
         [CHR 0x80, CHR 0x81, CHR 0x82, CHR 0x83, CHR 0x84, CHR 0x85, CHR 0x86, CHR 0x87,
          CHR 0x88, CHR 0x89, CHR 0x8A, CHR 0xA8, CHR 0xA9, CHR 0xAF]
     @ [[CHR 0xE2, CHR 0x81, CHR 0x9F], [CHR 0xE3, CHR 0x80, CHR 0x80]]"

function strip_front :: "string list \<Rightarrow> string \<Rightarrow> string" where
  "strip_front toks s =
     (case find (\<lambda>t. t \<noteq> [] \<and> take (length t) s = t) toks of
        None \<Rightarrow> s
      | Some t \<Rightarrow> strip_front toks (drop (length t) s))"
  by pat_completeness auto
termination
proof (relation "measure (\<lambda>(toks, s). length s)")
  show "wf (measure (\<lambda>(toks, s). length s))"
    by simp
next
  fix toks :: "string list" and s t :: string
  assume "find (\<lambda>t. t \<noteq> [] \<and> take (length t) s = t) toks = Some t"
  then have "t \<noteq> []" and "take (length t) s = t"
    by (auto simp: find_Some_iff)
  then have "s \<noteq> []" and "0 < length t"
    by auto
  then show "((toks, drop (length t) s), (toks, s)) \<in> measure (\<lambda>(toks, s). length s)"
    by simp
qed

declare strip_front.simps [simp del]

definition strip :: "string \<Rightarrow> string" where
  "strip s = rev (strip_front (map rev whitespace) (rev (strip_front whitespace s)))"

text \<open>\<^verbatim>\<open>sub in s\<close> for strings.\<close>

fun contains :: "string \<Rightarrow> string \<Rightarrow> bool" where
  "contains sub [] = (sub = [])"
| "contains sub (c # cs) = (take (length sub) (c # cs) = sub \<or> contains sub cs)"


section \<open>KMC verification monitoring (\<^verbatim>\<open>calculate_kmc_verification_monitoring\<close>)\<close>

text \<open>
  \<^verbatim>\<open>mne_comment and mne_comment.strip()\<close> as a condition: a falsy comment decides it;
  a truthy one must be a str to have \<^verbatim>\<open>strip\<close>.
\<close>

definition comment_given :: "pyval \<Rightarrow> exn + bool" where
  "comment_given mne_comment =
     (if \<not> truthy mne_comment then Inr False
      else case mne_comment of
             PStr s \<Rightarrow> Inr (strip s \<noteq> [])
           | _ \<Rightarrow> Inl AttributeError)"

text \<open>The status of one observation day, as the body of the inner loop resolves it.\<close>

definition verification_status :: "pydict \<Rightarrow> exn + string" where
  "verification_status obs_day =
     (let filled_correctly = get obs_day ''filledCorrectly'';
          kmc_filled_correctly = get obs_day ''kmcfilledcorrectly'';
          mne_comment = get_or obs_day ''mnecomment'' (PStr '''')
      in exn_bind (comment_given mne_comment) (\<lambda>commented.
           Inr (if commented then ''incorrect''
                else if filled_correctly = PBool True then ''correct''
                else if filled_correctly = PBool False then ''incorrect''
                else if kmc_filled_correctly = PBool True then ''correct''
                else if kmc_filled_correctly = PBool False then ''incorrect''
                else case kmc_filled_correctly of
                       PStr s \<Rightarrow>
                         if s \<noteq> [] then
                           (let kmc_lower = lower s
                            in if kmc_lower = ''correct'' \<or> kmc_lower = ''true'' then ''correct''
                               else if kmc_lower = ''incorrect'' \<or> kmc_lower = ''false''
                                 then ''incorrect''
                               else if contains ''unable'' kmc_lower then ''unable_to_verify''
                               else ''not_verified'')
                         else ''not_verified''
                     | _ \<Rightarrow> ''not_verified'')))"

text \<open>\<^verbatim>\<open>counts[k] += 1\<close> on a dict of counters with fixed keys.\<close>

definition bump :: "string \<Rightarrow> (string \<times> nat) list \<Rightarrow> (string \<times> nat) list" where
  "bump k counts = map (\<lambda>(k', n). if k' = k then (k', n + 1) else (k', n)) counts"



text \<open>A list or a dict cannot be looked up in a set or used as a key: TypeError.\<close>

definition hashable :: "pyval \<Rightarrow> bool" where
  "hashable v = (case v of PList xs \<Rightarrow> False | PDict kv \<Rightarrow> False | _ \<Rightarrow> True)"

definition vm_observation ::
    "pyval \<Rightarrow> pydict \<Rightarrow> pyval \<Rightarrow> (string \<times> nat) list \<times> pyval list
       \<Rightarrow> exn + (string \<times> nat) list \<times> pyval list" where
  "vm_observation uid baby obs = (\<lambda>(verification_stats, detailed_data).
     (let verification_stats = bump ''total_observations'' verification_stats
      in exn_bind (as_doc obs) (\<lambda>obs_day.
         exn_bind (verification_status obs_day) (\<lambda>status.
           Inr (bump status verification_stats,
                detailed_data @
                  [PDict [(''UID'', uid),
                          (''hospitalName'', get_or baby ''hospitalName'' (PStr ''Unknown'')),
                          (''observationDate'', get_or obs_day ''date'' (PStr ''Unknown'')),
                          (''ageDay'', get_or obs_day ''ageDay'' (PStr ''Unknown'')),
                          (''status'', PStr status),
                          (''filledCorrectly'', get obs_day ''filledCorrectly''),
                          (''kmcfilledcorrectly'', get obs_day ''kmcfilledcorrectly''),
                          (''mnecomment'', get_or obs_day ''mnecomment'' (PStr '''')),
                          (''observation_data'',
                             PDict (filter (\<lambda>(k, v). k \<notin> set [''filledCorrectly'',
                                       ''kmcfilledcorrectly'', ''mnecomment'', ''date'',
                                       ''ageDay'']) obs_day))]])))))"




section \<open>What the Python runtime and pandas supply\<close>

text \<open>
  The functions below call into the runtime at five places whose results are taken as
  given: \<^verbatim>\<open>float(s)\<close> on a str (\<open>None\<close> for the ValueError of an unparseable one),
  \<^verbatim>\<open>pd.to_datetime(s, errors='coerce')\<close> on a str (\<open>None\<close> for \<^verbatim>\<open>NaT\<close>; the value
  is the parsed civil time), the same call followed by the \<^verbatim>\<open>pd.isna\<close> test on a list
  or dict (which may raise), \<^verbatim>\<open>datetime.now()\<close>, and \<^verbatim>\<open>str(v)\<close> on a number, list or
  dict. Every property holds for any choice of them.
\<close>

record py_env =
  float_of_str :: "string \<Rightarrow> pyfloat option"
  parse_datetime :: "string \<Rightarrow> int option"
  to_datetime_other :: "pyval \<Rightarrow> exn + int option"
  now :: int
  str_of :: "pyval \<Rightarrow> string"

text \<open>
  \<^verbatim>\<open>float(v)\<close>. An int beyond the range of a double raises OverflowError. Within the
  range the double is the nearest one to the int; rounding is monotone and the bounds
  it is compared with below (2500 and 36) are doubles, so the comparisons are those of
  the int itself.
\<close>

definition float_limit :: int where
  \<comment> \<open>\<open>2 ^ 1024 - 2 ^ 970\<close>, the least int that rounds beyond the largest double\<close>
  "float_limit =
     179769313486231580793728971405303415079934132710037826936173778980444968292764750946649017977587207096330286416692887910946555547851940402630657488671505820681908902000708383676273854845817711531764475730270069855571366959622842914819860834936475292719074168444365510704342711559699508093042880177904174497792"

definition py_float :: "py_env \<Rightarrow> pyval \<Rightarrow> exn + pyfloat" where
  "py_float E v =
     (case v of
        PNone \<Rightarrow> Inl TypeError
      | PBool b \<Rightarrow> Inr (Fin (if b then 1 else 0))
      | PInt n \<Rightarrow> if float_limit \<le> \<bar>n\<bar> then Inl OverflowError else Inr (Fin (of_int n))
      | PFloat f \<Rightarrow> Inr f
      | PStr s \<Rightarrow> (case float_of_str E s of None \<Rightarrow> Inl ValueError | Some f \<Rightarrow> Inr f)
      | PList xs \<Rightarrow> Inl TypeError
      | PDict kv \<Rightarrow> Inl TypeError)"

text \<open>\<^verbatim>\<open>f < c\<close> and \<^verbatim>\<open>f <= c\<close> for a float and a finite bound.\<close>

fun flt_lt :: "pyfloat \<Rightarrow> rat \<Rightarrow> bool" where
  "flt_lt (Fin x) c = (x < c)"
| "flt_lt NegInf c = True"
| "flt_lt PosInf c = False"
| "flt_lt NaN c = False"

fun flt_le :: "pyfloat \<Rightarrow> rat \<Rightarrow> bool" where
  "flt_le (Fin x) c = (x \<le> c)"
| "flt_le NegInf c = True"
| "flt_le PosInf c = False"
| "flt_le NaN c = False"


section \<open>Sandbox eligibility (the filter of both sandbox metric functions)\<close>

text \<open>
  The body of the first loop of \<^verbatim>\<open>calculate_sandbox_system_metrics\<close>: the two
  \<^verbatim>\<open>try\<close> blocks catch ValueError and TypeError only.
\<close>

definition is_eligible_system :: "py_env \<Rightarrow> pydict \<Rightarrow> exn + bool" where
  "is_eligible_system E baby =
     (let weight = get baby ''birthWeight'';
          ga = get baby ''gestationalAge'';
          is_eligible = False;
          is_eligible = (if truthy (get baby ''babyInProgram'') then True else is_eligible)
      in exn_bind
           (if truthy weight then
              (case py_float E weight of
                 Inr f \<Rightarrow> Inr (if flt_lt f 2500 then True else is_eligible)
               | Inl e \<Rightarrow> if e = ValueError \<or> e = TypeError then Inr is_eligible else Inl e)
            else Inr is_eligible)
           (\<lambda>is_eligible.
              if \<not> is_eligible \<and> truthy ga then
                (case py_float E ga of
                   Inr f \<Rightarrow> Inr (if flt_le f 36 then True else is_eligible)
                 | Inl e \<Rightarrow> if e = ValueError \<or> e = TypeError then Inr is_eligible else Inl e)
              else Inr is_eligible))"

text \<open>
  The same loop body in \<^verbatim>\<open>calculate_sandbox_program_metrics\<close>, where a bare
  \<^verbatim>\<open>except\<close> catches everything.
\<close>

definition is_eligible_program :: "py_env \<Rightarrow> pydict \<Rightarrow> bool" where
  "is_eligible_program E baby =
     (let weight = get baby ''birthWeight'';
          ga = get baby ''gestationalAge'';
          is_eligible = False;
          is_eligible = (if truthy (get baby ''babyInProgram'') then True else is_eligible);
          is_eligible =
            (if truthy weight then
               (case py_float E weight of
                  Inr f \<Rightarrow> if flt_lt f 2500 then True else is_eligible
                | Inl e \<Rightarrow> is_eligible)
             else is_eligible);
          is_eligible =
            (if \<not> is_eligible \<and> truthy ga then
               (case py_float E ga of
                  Inr f \<Rightarrow> if flt_le f 36 then True else is_eligible
                | Inl e \<Rightarrow> is_eligible)
             else is_eligible)
      in is_eligible)"

text \<open>
  An environment to run the definitions on: \<^verbatim>\<open>float\<close> and \<^verbatim>\<open>to_datetime\<close> read a
  plain run of digits (as a number, and as a count of seconds), nothing else parses,
  the clock stands at 2024-01-01 00:00, and the text of a number, list or dict is a
  question mark.
\<close>

fun digits_from :: "int \<Rightarrow> string \<Rightarrow> int option" where
  "digits_from n [] = Some n"
| "digits_from n (c # cs) =
     (case map_of (zip ''0123456789'' [0, 1, 2, 3, 4, 5, 6, 7, 8, 9]) c of
        None \<Rightarrow> None
      | Some d \<Rightarrow> digits_from (10 * n + d) cs)"

definition digits_value :: "string \<Rightarrow> int option" where
  "digits_value s = (if s = [] then None else digits_from 0 s)"

definition sample_env :: py_env where
  "sample_env =
     \<lparr> float_of_str = (\<lambda>s. map_option (\<lambda>n. Fin (of_int n)) (digits_value s)),
       parse_datetime = (\<lambda>s. map_option (\<lambda>n. n * 1000000) (digits_value s)),
       to_datetime_other = (\<lambda>v. Inr None),
       now = 1704067200000000,
       str_of = (\<lambda>v. ''?'') \<rparr>"


section \<open>Temporal normalization (\<^verbatim>\<open>convert_unix_to_datetime\<close>)\<close>

text \<open>
  A naive \<^verbatim>\<open>datetime\<close> is the number of microseconds between 1970-01-01 00:00:00 and
  it, on its own clock; the type holds the years 1 to 9999.
\<close>

type_synonym datetime = int

definition datetime_min :: datetime where
  "datetime_min = - 62135596800000000"

definition datetime_max :: datetime where
  "datetime_max = 253402300799999999"

definition in_datetime_range :: "int \<Rightarrow> bool" where
  "in_datetime_range us = (datetime_min \<le> us \<and> us \<le> datetime_max)"

definition round_half_even :: "rat \<Rightarrow> int" where
  "round_half_even q =
     (let f = \<lfloor>q\<rfloor>; d = q - of_int f
      in if d < 1 / 2 then f else if 1 / 2 < d then f + 1 else if even f then f else f + 1)"

text \<open>
  \<^verbatim>\<open>datetime.fromtimestamp(t, tz=timezone.utc)\<close>: the seconds are rounded to
  microseconds, half to even; a time outside the years 1 to 9999 raises (ValueError or
  OverflowError, according to its size; the caller catches both).
\<close>

definition fromtimestamp_utc :: "rat \<Rightarrow> exn + datetime" where
  "fromtimestamp_utc t =
     (let us = round_half_even (t * 1000000)
      in if in_datetime_range us then Inr us else Inl OverflowError)"

text \<open>\<^verbatim>\<open>utc_dt.astimezone(IST).replace(tzinfo=None)\<close> with \<open>IST\<close> the fixed offset 5:30.\<close>

definition ist_offset :: int where
  "ist_offset = (5 * 3600 + 30 * 60) * 1000000"

definition astimezone_ist :: "datetime \<Rightarrow> exn + datetime" where
  "astimezone_ist utc_dt =
     (if in_datetime_range (utc_dt + ist_offset) then Inr (utc_dt + ist_offset)
      else Inl OverflowError)"

text \<open>
  The numeric branch, on the value of the int or float. The quotient by 1000 is a
  double in Python; here it is exact.
\<close>

definition convert_number :: "rat \<Rightarrow> exn + datetime" where
  "convert_number timestamp =
     exn_bind
       (if 1000000000000 < timestamp then fromtimestamp_utc (timestamp / 1000)
        else fromtimestamp_utc timestamp)
       astimezone_ist"

text \<open>\<^verbatim>\<open>except (ValueError, OSError, OverflowError): return None\<close>.\<close>

definition caught :: "exn + datetime option \<Rightarrow> exn + datetime option" where
  "caught r =
     (case r of
        Inl e \<Rightarrow> if e = ValueError \<or> e = OverflowError then Inr None else Inl e
      | Inr x \<Rightarrow> Inr x)"

definition convert_unix_to_datetime :: "py_env \<Rightarrow> pyval \<Rightarrow> exn + datetime option" where
  "convert_unix_to_datetime E timestamp =
     (if \<not> truthy timestamp then Inr None
      else caught
        (case timestamp of
           PBool b \<Rightarrow> map_sum id Some (convert_number (if b then 1 else 0))
         | PInt n \<Rightarrow> map_sum id Some (convert_number (of_int n))
         | PFloat f \<Rightarrow>
             (case f of
                Fin x \<Rightarrow> map_sum id Some (convert_number x)
              | NaN \<Rightarrow> Inl ValueError
              | _ \<Rightarrow> Inl OverflowError)
         | PStr s \<Rightarrow> Inr (parse_datetime E s)
         | v \<Rightarrow> to_datetime_other E v))"

text \<open>\<^verbatim>\<open>dt.date()\<close> as the number of the civil day, and the difference of two times in hours.\<close>

definition date_of :: "datetime \<Rightarrow> int" where
  "date_of dt = dt div 86400000000"





section \<open>Registration timeliness (\<^verbatim>\<open>calculate_registration_timeliness\<close>)\<close>








section \<open>Nurse productivity (\<^verbatim>\<open>calculate_nurse_activity\<close>)\<close>

text \<open>\<^verbatim>\<open>str(v)\<close>, as an f-string and \<^verbatim>\<open>str()\<close> apply it.\<close>

definition py_str :: "py_env \<Rightarrow> pyval \<Rightarrow> string" where
  "py_str E v =
     (case v of
        PStr s \<Rightarrow> s
      | PNone \<Rightarrow> ''None''
      | PBool b \<Rightarrow> if b then ''True'' else ''False''
      | _ \<Rightarrow> str_of E v)"

text \<open>\<^verbatim>\<open>v in [k1, k2, ...]\<close> for a list of ints: equality of numbers, with \<^verbatim>\<open>True == 1\<close>.\<close>

definition py_num_in :: "pyval \<Rightarrow> int list \<Rightarrow> bool" where
  "py_num_in v ks =
     (case v of
        PInt n \<Rightarrow> n \<in> set ks
      | PBool b \<Rightarrow> (if b then 1 else 0) \<in> set ks
      | PFloat f \<Rightarrow> (case f of Fin x \<Rightarrow> x \<in> set (map of_int ks) | _ \<Rightarrow> False)
      | _ \<Rightarrow> False)"

text \<open>
  A date is the number of its day; the window is \<^verbatim>\<open>start_date <= d.date() <= end_date\<close>.
  \<open>selected_hospitals\<close> is \<^verbatim>\<open>None\<close> or a list.
\<close>

definition in_window :: "int \<Rightarrow> int \<Rightarrow> datetime \<Rightarrow> bool" where
  "in_window start_date end_date d = (start_date \<le> date_of d \<and> date_of d \<le> end_date)"

definition hospital_selected :: "pyval list option \<Rightarrow> pyval \<Rightarrow> bool" where
  "hospital_selected selected_hospitals hospital =
     (case selected_hospitals of None \<Rightarrow> True | Some hs \<Rightarrow> hs = [] \<or> hospital \<in> set hs)"

record nurse_row =
  row_nurseName :: pyval
  row_hospital :: pyval
  followUps :: nat
  discharges :: nat
  registrations :: nat

text \<open>\<open>nurse_analysis\<close>: the rows by key, in order of insertion.\<close>

type_synonym nurse_table = "(string \<times> nurse_row) list"

definition nurse_key :: "py_env \<Rightarrow> pyval \<Rightarrow> pyval \<Rightarrow> string" where
  "nurse_key E nurse_name hospital = py_str E nurse_name @ ''|'' @ py_str E hospital"

definition ensure_row :: "string \<Rightarrow> pyval \<Rightarrow> pyval \<Rightarrow> nurse_table \<Rightarrow> nurse_table" where
  "ensure_row key nurse_name hospital nurse_analysis =
     (if key \<in> set (map fst nurse_analysis) then nurse_analysis
      else nurse_analysis @
             [(key, \<lparr> row_nurseName = nurse_name, row_hospital = hospital,
                      followUps = 0, discharges = 0, registrations = 0 \<rparr>)])"

definition add_followUp :: "string \<Rightarrow> nurse_table \<Rightarrow> nurse_table" where
  "add_followUp key nurse_analysis =
     map (\<lambda>(k, r). if k = key then (k, r\<lparr>followUps := followUps r + 1\<rparr>) else (k, r))
       nurse_analysis"

definition add_discharge :: "string \<Rightarrow> nurse_table \<Rightarrow> nurse_table" where
  "add_discharge key nurse_analysis =
     map (\<lambda>(k, r). if k = key then (k, r\<lparr>discharges := discharges r + 1\<rparr>) else (k, r))
       nurse_analysis"

definition add_registration :: "string \<Rightarrow> nurse_table \<Rightarrow> nurse_table" where
  "add_registration key nurse_analysis =
     map (\<lambda>(k, r). if k = key then (k, r\<lparr>registrations := registrations r + 1\<rparr>) else (k, r))
       nurse_analysis"

text \<open>The follow-up loop: one entry of \<open>follow_up_array\<close>, then one patient.\<close>

definition nurse_followup_entry ::
    "py_env \<Rightarrow> int \<Rightarrow> int \<Rightarrow> pyval list option \<Rightarrow> pyval \<Rightarrow> string \<Rightarrow> pyval
       \<Rightarrow> nurse_table \<Rightarrow> exn + nurse_table" where
  "nurse_followup_entry E start_date end_date selected_hospitals hospital key entry nurse_analysis =
     (case entry of
        PDict e \<Rightarrow>
          if py_num_in (get e ''followUpNumber'') [1, 2, 3, 7, 14, 28] then
            exn_bind (convert_unix_to_datetime E (py_or (get e ''date'') (get e ''followUpDate'')))
              (\<lambda>f_date.
                 Inr (case f_date of
                        Some d \<Rightarrow>
                          if in_window start_date end_date d
                            \<and> hospital_selected selected_hospitals hospital
                          then add_followUp key nurse_analysis
                          else nurse_analysis
                      | None \<Rightarrow> nurse_analysis))
          else Inr nurse_analysis
      | _ \<Rightarrow> Inr nurse_analysis)"

definition nurse_followups ::
    "py_env \<Rightarrow> int \<Rightarrow> int \<Rightarrow> pyval list option \<Rightarrow> pydict \<Rightarrow> nurse_table
       \<Rightarrow> exn + nurse_table" where
  "nurse_followups E start_date end_date selected_hospitals baby nurse_analysis =
     (let follow_up_array = get_or baby ''followUp'' (PList [])
      in if \<not> truthy follow_up_array then Inr nurse_analysis
         else
           (let nurse_name = get_or baby ''nurseName'' (PStr ''Not specified'');
                hospital = get_or baby ''hospitalName'' (PStr ''Unknown'')
            in if nurse_name \<noteq> PStr ''Not specified'' then
                 (let key = nurse_key E nurse_name hospital;
                      nurse_analysis = ensure_row key nurse_name hospital nurse_analysis
                  in exn_bind (py_iter follow_up_array) (\<lambda>entries.
                       for_each
                         (nurse_followup_entry E start_date end_date selected_hospitals
                            hospital key)
                         entries nurse_analysis))
               else Inr nurse_analysis))"

text \<open>The registration loop.\<close>

definition nurse_registration ::
    "py_env \<Rightarrow> int \<Rightarrow> int \<Rightarrow> pydict \<Rightarrow> nurse_table \<Rightarrow> exn + nurse_table" where
  "nurse_registration E start_date end_date baby nurse_analysis =
     (let nurse_name = get_or baby ''nurseName'' (PStr ''Not specified'');
          hospital = get_or baby ''hospitalName'' (PStr ''Unknown'')
      in if nurse_name \<noteq> PStr ''Not specified'' then
           (let key = nurse_key E nurse_name hospital;
                nurse_analysis = ensure_row key nurse_name hospital nurse_analysis
            in exn_bind (convert_unix_to_datetime E (get baby ''registrationDate''))
                 (\<lambda>reg_date.
                    Inr (case reg_date of
                           Some d \<Rightarrow>
                             if in_window start_date end_date d
                             then add_registration key nurse_analysis
                             else nurse_analysis
                         | None \<Rightarrow> nurse_analysis)))
         else Inr nurse_analysis)"

text \<open>
  The three discharge pools share one state: \<open>nurse_analysis\<close>,
  \<open>processed_discharge_uids\<close> and the count of the pool. The part that the three
  loops have in common, once the nurse, the hospital and the raw date are read:
\<close>

type_synonym discharge_state = "nurse_table \<times> pyval list \<times> nat"

definition count_discharge ::
    "py_env \<Rightarrow> int \<Rightarrow> int \<Rightarrow> pyval list option \<Rightarrow> pyval \<Rightarrow> pyval \<Rightarrow> pyval \<Rightarrow> pyval
       \<Rightarrow> discharge_state \<Rightarrow> exn + discharge_state" where
  "count_discharge E start_date end_date selected_hospitals uid nurse hospital raw_date =
     (\<lambda>(nurse_analysis, processed_discharge_uids, pool_count).
        exn_bind (convert_unix_to_datetime E raw_date) (\<lambda>discharge_date.
          Inr (if nurse \<noteq> PStr ''Not specified''
                  \<and> (case discharge_date of
                        None \<Rightarrow> True
                      | Some d \<Rightarrow> in_window start_date end_date d)
                  \<and> hospital_selected selected_hospitals hospital
               then (let key = nurse_key E nurse hospital
                     in (add_discharge key (ensure_row key nurse hospital nurse_analysis),
                         processed_discharge_uids @ [uid],
                         pool_count + 1))
               else (nurse_analysis, processed_discharge_uids, pool_count))))"

text \<open>1. The discharges collection.\<close>

definition nurse_discharge_record ::
    "py_env \<Rightarrow> int \<Rightarrow> int \<Rightarrow> pyval list option \<Rightarrow> pydict
       \<Rightarrow> discharge_state \<Rightarrow> exn + discharge_state" where
  "nurse_discharge_record E start_date end_date selected_hospitals discharge =
     (\<lambda>(nurse_analysis, processed_discharge_uids, pool_count).
        (let uid = get discharge ''UID''
         in if \<not> truthy uid then Inr (nurse_analysis, processed_discharge_uids, pool_count)
            else if \<not> hashable uid then Inl TypeError
            else if uid \<in> set processed_discharge_uids
            then Inr (nurse_analysis, processed_discharge_uids, pool_count)
            else count_discharge E start_date end_date selected_hospitals uid
                   (get_or discharge ''dischargeNurseName'' (PStr ''Not specified''))
                   (get_or discharge ''hospitalName'' (PStr ''Unknown''))
                   (get discharge ''dischargeDate'')
                   (nurse_analysis, processed_discharge_uids, pool_count)))"

text \<open>
  2. and 3. The patients of one source family (\<^verbatim>\<open>'baby'\<close>, then \<^verbatim>\<open>'babyBackUp'\<close>),
  which differ in the order of the two date fields.
\<close>

definition nurse_discharge_baby ::
    "py_env \<Rightarrow> int \<Rightarrow> int \<Rightarrow> pyval list option \<Rightarrow> string \<Rightarrow> string \<Rightarrow> string \<Rightarrow> pydict
       \<Rightarrow> discharge_state \<Rightarrow> exn + discharge_state" where
  "nurse_discharge_baby E start_date end_date selected_hospitals source date1 date2 baby =
     (\<lambda>(nurse_analysis, processed_discharge_uids, pool_count).
        if get baby ''source'' \<noteq> PStr source
        then Inr (nurse_analysis, processed_discharge_uids, pool_count)
        else
          (let uid = get baby ''UID''
           in if \<not> truthy uid then Inr (nurse_analysis, processed_discharge_uids, pool_count)
              else if \<not> hashable uid then Inl TypeError
              else if uid \<in> set processed_discharge_uids
              then Inr (nurse_analysis, processed_discharge_uids, pool_count)
              else if truthy (get baby ''discharged'') then
                count_discharge E start_date end_date selected_hospitals uid
                  (get_or baby ''nurseName'' (PStr ''Not specified''))
                  (get_or baby ''hospitalName'' (PStr ''Unknown''))
                  (py_or (get baby date1) (get baby date2))
                  (nurse_analysis, processed_discharge_uids, pool_count)
              else Inr (nurse_analysis, processed_discharge_uids, pool_count)))"

definition calculate_nurse_activity ::
    "py_env \<Rightarrow> pydict list \<Rightarrow> pydict list \<Rightarrow> int \<Rightarrow> int \<Rightarrow> pyval list option
       \<Rightarrow> exn + nurse_table \<times> (string \<times> nat) list" where
  "calculate_nurse_activity E baby_data discharge_data start_date end_date selected_hospitals =
     exn_bind (for_each (nurse_followups E start_date end_date selected_hospitals) baby_data [])
       (\<lambda>nurse_analysis.
     exn_bind (for_each (nurse_registration E start_date end_date) baby_data nurse_analysis)
       (\<lambda>nurse_analysis.
     exn_bind (for_each (nurse_discharge_record E start_date end_date selected_hospitals)
                 discharge_data (nurse_analysis, [], 0))
       (\<lambda>(nurse_analysis, processed_discharge_uids, discharge_collection).
     exn_bind (for_each (nurse_discharge_baby E start_date end_date selected_hospitals
                           ''baby'' ''lastDischargeDate'' ''dischargeDate'')
                 baby_data (nurse_analysis, processed_discharge_uids, 0))
       (\<lambda>(nurse_analysis, processed_discharge_uids, baby_collection).
     exn_bind (for_each (nurse_discharge_baby E start_date end_date selected_hospitals
                           ''babyBackUp'' ''dischargeDate'' ''lastDischargeDate'')
                 baby_data (nurse_analysis, processed_discharge_uids, 0))
       (\<lambda>(nurse_analysis, processed_discharge_uids, babybackup_collection).
          Inr (nurse_analysis,
               [(''discharge_collection'', discharge_collection),
                (''baby_collection'', baby_collection),
                (''babybackup_collection'', babybackup_collection)]))))))"






section \<open>Discharge outcomes (\<^verbatim>\<open>calculate_discharge_outcomes\<close>)\<close>





section \<open>Hospital stay duration (\<^verbatim>\<open>calculate_hospital_stay_duration\<close>)\<close>










section \<open>First-seen-wins de-duplication\<close>




section \<open>Arithmetic on numbers of mixed type\<close>











section \<open>Sandbox metrics: what the two functions share\<close>














section \<open>Sandbox system metrics (\<^verbatim>\<open>calculate_sandbox_system_metrics\<close>)\<close>
















section \<open>Sandbox program metrics (\<^verbatim>\<open>calculate_sandbox_program_metrics\<close>)\<close>




















section \<open>The two sources of a day's KMC total\<close>










section \<open>Properties\<close>

subsection \<open>Discharge classification\<close>

lemma discharge_bucket_keys: "discharge_bucket s t \<in> discharge_keys"
  by (simp add: discharge_bucket_def discharge_keys_def)

text \<open>
  Where the four status and type fields are absent or hold strings, the result is one of
  the five keys, by the table of \<^const>\<open>discharge_bucket\<close> on the lower-cased pair.
\<close>

lemma categorize_discharge_strings:
  assumes "\<And>k. k \<in> {''dischargeStatus'', ''dischargeType'', ''lastDischargeStatus'',
                     ''lastDischargeType''}
            \<Longrightarrow> map_of record k = None \<or> (\<exists>s. map_of record k = Some (PStr s))"
  shows "\<exists>c \<in> discharge_keys. categorize_discharge record source = Inr c"
proof -
  have "\<exists>s. str_lower (get_or record k (PStr '''')) = Inr s"
    if "k \<in> {''dischargeStatus'', ''dischargeType'', ''lastDischargeStatus'',
               ''lastDischargeType''}" for k
    using assms[OF that] by (auto simp: get_or_def str_lower_def)
  then obtain a b c d where
    "str_lower (get_or record ''dischargeStatus'' (PStr '''')) = Inr a"
    "str_lower (get_or record ''dischargeType'' (PStr '''')) = Inr b"
    "str_lower (get_or record ''lastDischargeStatus'' (PStr '''')) = Inr c"
    "str_lower (get_or record ''lastDischargeType'' (PStr '''')) = Inr d"
    by (metis insertCI)
  then show ?thesis
    by (simp add: categorize_discharge_def exn_bind_def discharge_bucket_keys)
       (simp add: discharge_keys_def)
qed

text \<open>
  C4. The claim: for every input record and every source family
  \<^verbatim>\<open>categorize_discharge\<close> returns one of the five keys and never raises. A discharge
  document whose \<^verbatim>\<open>dischargeStatus\<close> is stored as null is a record on which it does
  raise: \<^verbatim>\<open>record.get('dischargeStatus', '')\<close> returns \<^verbatim>\<open>None\<close>, the default
  covering only the absent key, and \<^verbatim>\<open>None.lower()\<close> is an AttributeError.
\<close>

theorem categorize_discharge_null_status_raises:
  "categorize_discharge
     [(''UID'', PStr ''b1''), (''dischargeStatus'', PNone), (''dischargeType'', PStr ''home'')]
     ''discharges''
   = Inl AttributeError"
  by (simp add: categorize_discharge_def exn_bind_def str_lower_def get_or_def)


subsection \<open>Hierarchical field resolution\<close>

lemma prioritized_refines:
  "(let v = NA;
        v = (if doc_truthy md then get_or (the md) dkey NA else v);
        v = (if v = NA then get_or baby bkey NA else v)
    in v) = resolve_by_priority (discharge_field md dkey) (map_of baby bkey)"
  by (cases md)
     (auto simp: doc_truthy_def resolve_by_priority_def discharge_field_def get_or_def Let_def
           split: option.splits)

text \<open>
  C5. Each of the seven resolvers returns the matched discharge record's field when it is
  present and not \<open>N/A\<close>, otherwise the patient record's legacy-named field, otherwise
  \<open>N/A\<close>. In particular a discharge value other than \<open>N/A\<close> wins over an embedded one,
  and without a matched discharge record the embedded value is returned.
\<close>

theorem prioritized_resolvers_follow_priority:
  "get_prioritized_discharge_weight baby md
     = resolve_by_priority (discharge_field md ''dischargeWeight'') (map_of baby ''dischargeWeight'')
   \<and> get_prioritized_discharge_temperature baby md
     = resolve_by_priority (discharge_field md ''dischargeTemperature'')
         (map_of baby ''babyTemperatureDischarge2'')
   \<and> get_prioritized_discharge_rr baby md
     = resolve_by_priority (discharge_field md ''dischargeRR'') (map_of baby ''babyRRdischarge'')
   \<and> get_prioritized_feed_mode baby md
     = resolve_by_priority (discharge_field md ''feedMode'') (map_of baby ''whatFeedMode'')
   \<and> get_prioritized_baby_health baby md
     = resolve_by_priority (discharge_field md ''dischargeDangerSigns'')
         (map_of baby ''howsBabyHealth'')
   \<and> get_prioritized_critical_reasons baby md
     = resolve_by_priority (discharge_field md ''criticalReasons'') (map_of baby ''criticalReasons'')
   \<and> get_prioritized_discharge_reason baby md
     = resolve_by_priority (discharge_field md ''dischargeReason'') (map_of baby ''dischargeReason'')
   \<and> (\<forall>v w. v \<noteq> NA \<longrightarrow>
          get_prioritized_feed_mode [(''whatFeedMode'', w)] (Some [(''feedMode'', v)]) = v
        \<and> get_prioritized_feed_mode [(''whatFeedMode'', w)] None = w)"
  unfolding get_prioritized_discharge_weight_def get_prioritized_discharge_temperature_def
    get_prioritized_discharge_rr_def get_prioritized_feed_mode_def
    get_prioritized_baby_health_def get_prioritized_critical_reasons_def
    get_prioritized_discharge_reason_def prioritized_refines
  by (simp add: resolve_by_priority_def discharge_field_def)

theorem prioritized_resolvers_follow_priority_witness:
  "PStr ''breast'' \<noteq> NA
   \<and> get_prioritized_feed_mode [(''whatFeedMode'', PStr ''bottle'')]
         (Some [(''feedMode'', PStr ''breast'')]) = PStr ''breast''
   \<and> get_prioritized_feed_mode [(''whatFeedMode'', PStr ''bottle'')] None = PStr ''bottle''
   \<and> get_prioritized_discharge_weight [(''dischargeWeight'', PInt 2100)]
         (Some [(''dischargeWeight'', PInt 2300)]) = PInt 2300"
proof -
  have h: "PStr ''breast'' \<noteq> NA"
    by (simp add: NA_def)
  have all: "\<forall>v w. v \<noteq> NA \<longrightarrow>
          get_prioritized_feed_mode [(''whatFeedMode'', w)] (Some [(''feedMode'', v)]) = v
        \<and> get_prioritized_feed_mode [(''whatFeedMode'', w)] None = w"
    using prioritized_resolvers_follow_priority
            [of "[(''dischargeWeight'', PInt 2100)]" "Some [(''dischargeWeight'', PInt 2300)]"]
    by blast
  have w: "get_prioritized_discharge_weight [(''dischargeWeight'', PInt 2100)]
         (Some [(''dischargeWeight'', PInt 2300)]) = PInt 2300"
    using prioritized_resolvers_follow_priority
            [of "[(''dischargeWeight'', PInt 2100)]" "Some [(''dischargeWeight'', PInt 2300)]"]
    by (simp add: resolve_by_priority_def discharge_field_def NA_def)
  from h all w show ?thesis
    by blast
qed


subsection \<open>Verification status\<close>

lemma strip_front_Nil: "strip_front toks [] = []"
proof -
  have "find (\<lambda>t. t \<noteq> [] \<and> take (length t) [] = t) toks = None"
    by (auto simp: find_None_iff)
  then show ?thesis
    by (subst strip_front.simps) simp
qed

lemma strip_Nil: "strip [] = []"
  by (simp add: strip_def strip_front_Nil)

lemma comment_given_str: "strip s \<noteq> [] \<Longrightarrow> comment_given (PStr s) = Inr True"
  using strip_Nil by (auto simp: comment_given_def)

text \<open>
  C6. An observation day whose \<^verbatim>\<open>mnecomment\<close> is a string that is non-empty after
  stripping white space resolves to \<open>incorrect\<close>, whatever \<^verbatim>\<open>filledCorrectly\<close> and
  \<^verbatim>\<open>kmcfilledcorrectly\<close> hold, and the scan counts it under \<open>incorrect\<close>; a day
  with an empty comment and neither flag set resolves to the default \<open>not_verified\<close>.
\<close>

theorem comment_overrides_flags:
  "(map_of obs_day ''mnecomment'' = Some (PStr s) \<and> strip s \<noteq> []
      \<longrightarrow> verification_status obs_day = Inr ''incorrect''
        \<and> map_sum id fst (vm_observation uid baby (PDict obs_day) (stats, rows))
            = Inr (bump ''incorrect'' (bump ''total_observations'' stats)))
   \<and> (comment_given (get_or obs_day ''mnecomment'' (PStr '''')) = Inr False
      \<and> get obs_day ''filledCorrectly'' = PNone \<and> get obs_day ''kmcfilledcorrectly'' = PNone
      \<longrightarrow> verification_status obs_day = Inr ''not_verified'')"
proof (intro conjI impI)
  assume a: "map_of obs_day ''mnecomment'' = Some (PStr s) \<and> strip s \<noteq> []"
  then have c: "comment_given (get_or obs_day ''mnecomment'' (PStr '''')) = Inr True"
    by (simp add: get_or_def comment_given_str)
  then show v: "verification_status obs_day = Inr ''incorrect''"
    by (simp add: verification_status_def exn_bind_def Let_def)
  then show "map_sum id fst (vm_observation uid baby (PDict obs_day) (stats, rows))
            = Inr (bump ''incorrect'' (bump ''total_observations'' stats))"
    by (simp add: vm_observation_def as_doc_def exn_bind_def Let_def)
next
  assume "comment_given (get_or obs_day ''mnecomment'' (PStr '''')) = Inr False
      \<and> get obs_day ''filledCorrectly'' = PNone \<and> get obs_day ''kmcfilledcorrectly'' = PNone"
  then show "verification_status obs_day = Inr ''not_verified''"
    by (simp add: verification_status_def exn_bind_def Let_def)
qed

theorem comment_overrides_flags_witness:
  "map_of [(''mnecomment'', PStr ''needs review''), (''filledCorrectly'', PBool True)]
       ''mnecomment'' = Some (PStr ''needs review'')
   \<and> strip ''needs review'' \<noteq> []
   \<and> verification_status [(''mnecomment'', PStr ''needs review''), (''filledCorrectly'', PBool True)]
       = Inr ''incorrect''
   \<and> comment_given (get_or [(''ageDay'', PInt 3)] ''mnecomment'' (PStr '''')) = Inr False
   \<and> get [(''ageDay'', PInt 3)] ''filledCorrectly'' = PNone
   \<and> get [(''ageDay'', PInt 3)] ''kmcfilledcorrectly'' = PNone
   \<and> verification_status [(''ageDay'', PInt 3)] = Inr ''not_verified''"
proof -
  have s: "strip ''needs review'' \<noteq> []"
    by code_simp
  have m: "map_of [(''mnecomment'', PStr ''needs review''), (''filledCorrectly'', PBool True)]
       ''mnecomment'' = Some (PStr ''needs review'')"
    by simp
  have e: "comment_given (get_or [(''ageDay'', PInt 3)] ''mnecomment'' (PStr '''')) = Inr False
   \<and> get [(''ageDay'', PInt 3)] ''filledCorrectly'' = PNone
   \<and> get [(''ageDay'', PInt 3)] ''kmcfilledcorrectly'' = PNone"
    by (simp add: comment_given_def get_or_def get_def)
  from s m e
    comment_overrides_flags [of "[(''mnecomment'', PStr ''needs review''),
       (''filledCorrectly'', PBool True)]" "''needs review''"]
    comment_overrides_flags [of "[(''ageDay'', PInt 3)]"]
  show ?thesis
    by blast
qed


subsection \<open>Sandbox eligibility\<close>

text \<open>
  C9, as stated, makes a patient eligible as soon as the birth weight parses to a
  number below 2500. A birth weight of 0 parses to 0, yet both functions leave the
  patient ineligible: \<^verbatim>\<open>if weight:\<close> skips a zero before it is parsed.
\<close>

theorem zero_weight_not_eligible:
  "py_float sample_env (get [(''UID'', PStr ''b1''), (''birthWeight'', PInt 0)] ''birthWeight'')
     = Inr (Fin 0)
   \<and> flt_lt (Fin 0) 2500
   \<and> \<not> truthy (get [(''UID'', PStr ''b1''), (''birthWeight'', PInt 0)] ''babyInProgram'')
   \<and> is_eligible_system sample_env [(''UID'', PStr ''b1''), (''birthWeight'', PInt 0)] = Inr False
   \<and> is_eligible_program sample_env [(''UID'', PStr ''b1''), (''birthWeight'', PInt 0)] = False"
  by code_simp

text \<open>
  C9, amended. In both sandbox functions a patient is eligible if and only if the
  enrolled-in-program flag is truthy, or the birth weight is truthy (present, not zero,
  not empty) and parses to a number below 2500, or the gestational age is truthy and
  parses to a number of at most 36. A value that fails to parse does not satisfy its
  sub-condition and, in the program function, never raises. (The system function is
  stated for weights and ages that \<^verbatim>\<open>float\<close> does not overflow on.)
\<close>

theorem sandbox_eligibility:
  "is_eligible_program E baby
     = (truthy (get baby ''babyInProgram'')
        \<or> (truthy (get baby ''birthWeight'')
           \<and> (\<exists>f. py_float E (get baby ''birthWeight'') = Inr f \<and> flt_lt f 2500))
        \<or> (truthy (get baby ''gestationalAge'')
           \<and> (\<exists>f. py_float E (get baby ''gestationalAge'') = Inr f \<and> flt_le f 36)))
   \<and> (py_float E (get baby ''birthWeight'') \<noteq> Inl OverflowError
      \<and> py_float E (get baby ''gestationalAge'') \<noteq> Inl OverflowError
      \<longrightarrow> is_eligible_system E baby = Inr (is_eligible_program E baby))"
proof
  show "is_eligible_program E baby
     = (truthy (get baby ''babyInProgram'')
        \<or> (truthy (get baby ''birthWeight'')
           \<and> (\<exists>f. py_float E (get baby ''birthWeight'') = Inr f \<and> flt_lt f 2500))
        \<or> (truthy (get baby ''gestationalAge'')
           \<and> (\<exists>f. py_float E (get baby ''gestationalAge'') = Inr f \<and> flt_le f 36)))"
    by (auto simp: is_eligible_program_def Let_def split: sum.splits)
next
  have raises: "py_float E v = Inl e \<Longrightarrow> e = ValueError \<or> e = TypeError \<or> e = OverflowError"
    for v e
    by (auto simp: py_float_def split: pyval.splits if_splits option.splits)
  show "py_float E (get baby ''birthWeight'') \<noteq> Inl OverflowError
      \<and> py_float E (get baby ''gestationalAge'') \<noteq> Inl OverflowError
      \<longrightarrow> is_eligible_system E baby = Inr (is_eligible_program E baby)"
  proof
    assume a: "py_float E (get baby ''birthWeight'') \<noteq> Inl OverflowError
      \<and> py_float E (get baby ''gestationalAge'') \<noteq> Inl OverflowError"
    have w: "py_float E (get baby ''birthWeight'') = Inl e \<Longrightarrow> e = ValueError \<or> e = TypeError"
      for e using a raises by blast
    have g: "py_float E (get baby ''gestationalAge'') = Inl e \<Longrightarrow> e = ValueError \<or> e = TypeError"
      for e using a raises by blast
    show "is_eligible_system E baby = Inr (is_eligible_program E baby)"
      using w g
      by (auto simp: is_eligible_system_def is_eligible_program_def Let_def exn_bind_def
               split: sum.splits)
  qed
qed

theorem sandbox_eligibility_witness:
  "py_float sample_env (get [(''birthWeight'', PInt 2200)] ''birthWeight'') \<noteq> Inl OverflowError
   \<and> py_float sample_env (get [(''birthWeight'', PInt 2200)] ''gestationalAge'')
       \<noteq> Inl OverflowError
   \<and> is_eligible_system sample_env [(''birthWeight'', PInt 2200)] = Inr True
   \<and> is_eligible_program sample_env [(''birthWeight'', PInt 2200)] = True
   \<and> is_eligible_system sample_env [(''birthWeight'', PInt 3000), (''gestationalAge'', PInt 40)]
       = Inr False
   \<and> is_eligible_system sample_env [(''birthWeight'', PStr ''heavy''), (''gestationalAge'', PInt 35)]
       = Inr True"
proof -
  have h: "py_float sample_env (get [(''birthWeight'', PInt 2200)] ''birthWeight'')
        \<noteq> Inl OverflowError
      \<and> py_float sample_env (get [(''birthWeight'', PInt 2200)] ''gestationalAge'')
        \<noteq> Inl OverflowError"
    by code_simp
  have p: "is_eligible_program sample_env [(''birthWeight'', PInt 2200)] = True"
    by code_simp
  have s: "is_eligible_system sample_env [(''birthWeight'', PInt 2200)] = Inr True"
    using sandbox_eligibility [of sample_env "[(''birthWeight'', PInt 2200)]"] h p by simp
  have r: "is_eligible_system sample_env
             [(''birthWeight'', PInt 3000), (''gestationalAge'', PInt 40)] = Inr False
     \<and> is_eligible_system sample_env
             [(''birthWeight'', PStr ''heavy''), (''gestationalAge'', PInt 35)] = Inr True"
    by code_simp
  from h p s r show ?thesis
    by blast
qed


subsection \<open>Temporal normalization\<close>








subsection \<open>Registration timeliness\<close>





subsection \<open>Nurse productivity\<close>



lemma map_of_add_followUp:
  "map_of (add_followUp key na) k
     = (if k = key then map_option (\<lambda>r. r\<lparr>followUps := followUps r + 1\<rparr>) (map_of na k)
        else map_of na k)"
  by (induction na) (auto simp: add_followUp_def)

lemma map_of_add_registration:
  "map_of (add_registration key na) k
     = (if k = key then map_option (\<lambda>r. r\<lparr>registrations := registrations r + 1\<rparr>) (map_of na k)
        else map_of na k)"
  by (induction na) (auto simp: add_registration_def)








subsection \<open>First-seen-wins de-duplication\<close>













subsection \<open>Day totals: maximum, not sum\<close>











subsection \<open>Zero denominators\<close>









end
